theory Spec2Isabelle
  imports Complex_Main "HOL-Library.Word"
begin

unbundle bit_operations_syntax

section \<open>Element types and the multiply type-promotion table (multiply.hpp)\<close>

text \<open>
  The kernels are C++ templates over element types. The dispatch universe has fourteen
  element types; a template instantiation at \<open>(T1, T2)\<close> is a function of two tags.
  The result type \<open>void\<close> of the promotion table is \<open>None\<close>.
\<close>

datatype elem_type =
    T_bool | T_uint8 | T_int8 | T_uint16 | T_int16 | T_uint32 | T_int32
  | T_uint64 | T_int64 | T_half | T_float | T_double | T_cfloat | T_cdouble

text \<open>The fourteen tags in the order of the table of \<open>MultiplyOutputType\<close>.\<close>

definition all_elem_types :: "elem_type list" where
  "all_elem_types =
     [T_bool, T_uint8, T_int8, T_uint16, T_int16, T_uint32, T_int32,
      T_uint64, T_int64, T_half, T_float, T_double, T_cfloat, T_cdouble]"

text \<open>
  Modelled from the spec: \<open>td_ns::BinaryTypeMapResultEntry\<close> and
  \<open>td_ns::DefaultResultEntry\<close> are declared in utils/type_dispatch.hpp, which is not
  among the sources. An entry \<open>BinaryTypeMapResultEntry T1 A1 T2 A2 R\<close> is an
  exact-type-pair entry: it matches when \<open>T1\<close> is \<open>A1\<close> and \<open>T2\<close> is \<open>A2\<close>, and
  carries the result type \<open>R\<close>; the default entry always matches and carries the
  fallback result (\<open>void\<close> here).
\<close>

datatype result_entry =
    BinaryTypeMapResultEntry elem_type elem_type elem_type elem_type elem_type
  | DefaultResultEntry "elem_type option"

fun entry_value :: "result_entry \<Rightarrow> bool" where
  "entry_value (BinaryTypeMapResultEntry T1 A1 T2 A2 R) = (T1 = A1 \<and> T2 = A2)"
| "entry_value (DefaultResultEntry R) = True"

fun result_type :: "result_entry \<Rightarrow> elem_type option" where
  "result_type (BinaryTypeMapResultEntry T1 A1 T2 A2 R) = Some R"
| "result_type (DefaultResultEntry R) = R"

text \<open>
  \<open>std::disjunction<B1, ..., Bn>\<close> is the first \<open>Bi\<close> whose value is true, and
  \<open>Bn\<close> when there is none (\<open>std::false_type\<close>, which has no result type, for
  the empty list).
\<close>

fun disjunction :: "result_entry list \<Rightarrow> result_entry option" where
  "disjunction [] = None"
| "disjunction [b] = Some b"
| "disjunction (b # bs) = (if entry_value b then Some b else disjunction bs)"

text \<open>The argument list of \<open>std::disjunction\<close> in \<open>MultiplyOutputType<T1, T2>\<close>.\<close>

definition MultiplyOutputType_entries :: "elem_type \<Rightarrow> elem_type \<Rightarrow> result_entry list" where
  "MultiplyOutputType_entries T1 T2 =
     [BinaryTypeMapResultEntry T1 T_bool T2 T_bool T_bool,
      BinaryTypeMapResultEntry T1 T_uint8 T2 T_uint8 T_uint8,
      BinaryTypeMapResultEntry T1 T_int8 T2 T_int8 T_int8,
      BinaryTypeMapResultEntry T1 T_uint16 T2 T_uint16 T_uint16,
      BinaryTypeMapResultEntry T1 T_int16 T2 T_int16 T_int16,
      BinaryTypeMapResultEntry T1 T_uint32 T2 T_uint32 T_uint32,
      BinaryTypeMapResultEntry T1 T_int32 T2 T_int32 T_int32,
      BinaryTypeMapResultEntry T1 T_uint64 T2 T_uint64 T_uint64,
      BinaryTypeMapResultEntry T1 T_int64 T2 T_int64 T_int64,
      BinaryTypeMapResultEntry T1 T_half T2 T_half T_half,
      BinaryTypeMapResultEntry T1 T_float T2 T_float T_float,
      BinaryTypeMapResultEntry T1 T_double T2 T_double T_double,
      BinaryTypeMapResultEntry T1 T_cfloat T2 T_cfloat T_cfloat,
      BinaryTypeMapResultEntry T1 T_cdouble T2 T_cdouble T_cdouble,
      DefaultResultEntry None]"

text \<open>\<open>MultiplyOutputType<T1, T2>::value_type\<close>; \<open>None\<close> is \<open>void\<close>.\<close>

definition MultiplyOutputType :: "elem_type \<Rightarrow> elem_type \<Rightarrow> elem_type option" where
  "MultiplyOutputType T1 T2 =
     (case disjunction (MultiplyOutputType_entries T1 T2) of
        None \<Rightarrow> None
      | Some e \<Rightarrow> result_type e)"

subsection \<open>Kernel factories\<close>

text \<open>
  Modelled from the spec: \<open>type_utils::is_complex\<close> is declared in
  utils/type_utils.hpp, which is not among the sources; the complex element types are
  complex64 and complex128 (\<open>std::complex<float>\<close>, \<open>std::complex<double>\<close>).
\<close>

fun is_complex :: "elem_type \<Rightarrow> bool" where
  "is_complex T_cfloat = True"
| "is_complex T_cdouble = True"
| "is_complex T = False"

text \<open>
  A function pointer \<open>fnT\<close>: null, or the address of one instantiation of a launcher
  template.
\<close>

datatype fn_ptr =
    nullptr
  | Fn_multiply_contig_impl elem_type elem_type
  | Fn_multiply_strided_impl elem_type elem_type
  | Fn_multiply_contig_matrix_contig_row_broadcast_impl elem_type elem_type elem_type
  | Fn_multiply_contig_row_contig_matrix_broadcast_impl elem_type elem_type elem_type

definition MultiplyContigFactory_get :: "elem_type \<Rightarrow> elem_type \<Rightarrow> fn_ptr" where
  "MultiplyContigFactory_get T1 T2 =
     (if MultiplyOutputType T1 T2 = None then nullptr
      else Fn_multiply_contig_impl T1 T2)"

definition MultiplyStridedFactory_get :: "elem_type \<Rightarrow> elem_type \<Rightarrow> fn_ptr" where
  "MultiplyStridedFactory_get T1 T2 =
     (if MultiplyOutputType T1 T2 = None then nullptr
      else Fn_multiply_strided_impl T1 T2)"

definition MultiplyContigMatrixContigRowBroadcastFactory_get ::
  "elem_type \<Rightarrow> elem_type \<Rightarrow> fn_ptr" where
  "MultiplyContigMatrixContigRowBroadcastFactory_get T1 T2 =
     (case MultiplyOutputType T1 T2 of
        None \<Rightarrow> nullptr
      | Some resT \<Rightarrow>
          if is_complex T1 \<or> is_complex T2 \<or> is_complex resT then nullptr
          else Fn_multiply_contig_matrix_contig_row_broadcast_impl T1 T2 resT)"

definition MultiplyContigRowContigMatrixBroadcastFactory_get ::
  "elem_type \<Rightarrow> elem_type \<Rightarrow> fn_ptr" where
  "MultiplyContigRowContigMatrixBroadcastFactory_get T1 T2 =
     (case MultiplyOutputType T1 T2 of
        None \<Rightarrow> nullptr
      | Some resT \<Rightarrow>
          if is_complex T1 \<or> is_complex T2 \<or> is_complex resT then nullptr
          else Fn_multiply_contig_row_contig_matrix_broadcast_impl T1 T2 resT)"

section \<open>The flags accessor (_flags.pyx)\<close>

text \<open>
  The class \<open>Flags\<close> holds the array and an integer bitmask. The three bit constants
  are imported from \<open>dpctl.tensor._usmarray\<close>, which is not among the sources, so they
  are parameters of the model. Python integers are unbounded: the mask is an \<open>int\<close>.
  The attributes \<open>arr_\<close> and \<open>flags_\<close> are the fields \<open>arr_field\<close> and
  \<open>flags_field\<close> (a name cannot end in an underscore here).
\<close>

record usm_array_consts =
  USM_ARRAY_C_CONTIGUOUS :: int
  USM_ARRAY_F_CONTIGUOUS :: int
  USM_ARRAY_WRITEABLE :: int

record 'arr Flags =
  arr_field :: 'arr
  flags_field :: int

definition flags :: "'arr Flags \<Rightarrow> int" where
  "flags self = flags_field self"

definition c_contiguous :: "usm_array_consts \<Rightarrow> 'arr Flags \<Rightarrow> bool" where
  "c_contiguous K self =
     ((flags_field self AND USM_ARRAY_C_CONTIGUOUS K) = USM_ARRAY_C_CONTIGUOUS K)"

definition f_contiguous :: "usm_array_consts \<Rightarrow> 'arr Flags \<Rightarrow> bool" where
  "f_contiguous K self =
     ((flags_field self AND USM_ARRAY_F_CONTIGUOUS K) = USM_ARRAY_F_CONTIGUOUS K)"

definition writable :: "usm_array_consts \<Rightarrow> 'arr Flags \<Rightarrow> bool" where
  "writable K self =
     (if (flags self AND USM_ARRAY_WRITEABLE K) = USM_ARRAY_WRITEABLE K then False
      else True)"

definition forc :: "usm_array_consts \<Rightarrow> 'arr Flags \<Rightarrow> bool" where
  "forc K self =
     (if (flags_field self AND USM_ARRAY_F_CONTIGUOUS K) = USM_ARRAY_F_CONTIGUOUS K
         \<or> (flags_field self AND USM_ARRAY_C_CONTIGUOUS K) = USM_ARRAY_C_CONTIGUOUS K
      then True else False)"

text \<open>
  \<open>__getitem__\<close>: an \<open>if\<close>/\<open>elif\<close> chain on the key; a key that no branch takes
  falls off the end of the method, which returns Python's \<open>None\<close>.
\<close>

definition getitem :: "usm_array_consts \<Rightarrow> 'arr Flags \<Rightarrow> string \<Rightarrow> bool option" where
  "getitem K self name =
     (if name \<in> set [''C_CONTIGUOUS'', ''C''] then Some (c_contiguous K self)
      else if name \<in> set [''F_CONTIGUOUS'', ''F''] then Some (f_contiguous K self)
      else if name = ''WRITABLE'' then Some (writable K self)
      else if name = ''CONTIGUOUS'' then Some (forc K self)
      else None)"

section \<open>The device queue and the matrix-row broadcast launcher (multiply.hpp)\<close>

text \<open>
  The launcher talks to a SYCL queue: it asks the device for its sub-group sizes,
  allocates device memory and submits command groups. The queue is explicit state. An
  event is the position of its command group in the queue's submission list. Sizes
  (\<open>size_t\<close>) are natural numbers: the element counts are those of arrays that exist
  in memory, far below the wrap-around of 64-bit arithmetic. Typed pointers are element
  addresses (\<open>int\<close>); \<open>reinterpret_cast<const T *>(p) + offset\<close> is \<open>p + offset\<close>.
\<close>

type_synonym event = nat

text \<open>
  The three command groups the launcher submits. The kernel functor of the second,
  \<open>BinaryContigMatrixContigRowBroadcastingFunctor\<close>, is defined in
  kernels/elementwise_functions/common.hpp, which is not among the sources: the command
  records the nd-range and the functor's constructor arguments.
\<close>

datatype command =
    Make_padded_vec_kernel nat int int nat
  | Multiply_matrix_row_broadcast_sg_krn nat nat int int int nat nat
  | Host_task_free int

record command_group =
  cg_depends :: "event list"
  cg_command :: command

record queue =
  sub_group_sizes :: "nat list"
  malloc_device_result :: "nat \<Rightarrow> int option"
  malloc_log :: "nat list"
  submitted :: "command_group list"

datatype error = runtime_error string

text \<open>
  \<open>*std::max_element(begin, end)\<close>. A SYCL device reports at least one sub-group
  size; on an empty vector the C++ dereferences the end iterator (undefined), and the
  theorems below assume a non-empty list.
\<close>

definition max_element :: "nat list \<Rightarrow> nat" where
  "max_element xs = (case xs of [] \<Rightarrow> 0 | x # ys \<Rightarrow> fold max ys x)"

text \<open>
  \<open>sycl::malloc_device<T>(count, q)\<close>: the allocator is outside the program, so its
  answer is a field of the state (\<open>None\<close> is the null pointer); every request is
  logged with its element count.
\<close>

definition malloc_device :: "nat \<Rightarrow> queue \<Rightarrow> int option \<times> queue" where
  "malloc_device n q = (malloc_device_result q n, q\<lparr>malloc_log := malloc_log q @ [n]\<rparr>)"

definition submit :: "command_group \<Rightarrow> queue \<Rightarrow> event \<times> queue" where
  "submit cg q = (length (submitted q), q\<lparr>submitted := submitted q @ [cg]\<rparr>)"

text \<open>
  The launcher returns the queue, the caller's \<open>host_tasks\<close> vector (passed by
  reference) and either the thrown error or the returned event.
\<close>

definition multiply_contig_matrix_contig_row_broadcast_impl ::
  "queue \<Rightarrow> event list \<Rightarrow> nat \<Rightarrow> nat \<Rightarrow> int \<Rightarrow> int \<Rightarrow> int \<Rightarrow> int \<Rightarrow> int \<Rightarrow> int
     \<Rightarrow> event list \<Rightarrow> queue \<times> event list \<times> (error + event)" where
  "multiply_contig_matrix_contig_row_broadcast_impl exec_q host_tasks n0 n1
       mat_p mat_offset vec_p vec_offset res_p res_offset depends =
     (let mat = mat_p + mat_offset;
          vec = vec_p + vec_offset;
          res = res_p + res_offset;
          sg_sizes = sub_group_sizes exec_q;
          max_sgSize = max_element sg_sizes;
          n1_padded = n1 + max_sgSize;
          (padded_vec, q1) = malloc_device n1_padded exec_q
      in case padded_vec of
           None \<Rightarrow>
             (q1, host_tasks,
              Inl (runtime_error ''Could not allocate memory on the device''))
         | Some pv \<Rightarrow>
             (let (make_padded_vec_ev, q2) =
                    submit \<lparr>cg_depends = depends,
                            cg_command = Make_padded_vec_kernel n1_padded pv vec n1\<rparr> q1;
                  lws = 64;
                  n_elems = n0 * n1;
                  n_groups = (n_elems + lws - 1) div lws;
                  (comp_ev, q3) =
                    submit \<lparr>cg_depends = [make_padded_vec_ev],
                            cg_command = Multiply_matrix_row_broadcast_sg_krn
                              (n_groups * lws) lws mat pv res n_elems n1\<rparr> q2;
                  (tmp_cleanup_ev, q4) =
                    submit \<lparr>cg_depends = [comp_ev], cg_command = Host_task_free pv\<rparr> q3
              in (q4, host_tasks @ [tmp_cleanup_ev], Inr comp_ev)))"

text \<open>
  The mirrored launcher receives the row before the matrix and calls the matrix-row
  launcher (instantiated with the two argument types swapped) with the matrix first.
\<close>

definition multiply_contig_row_contig_matrix_broadcast_impl ::
  "queue \<Rightarrow> event list \<Rightarrow> nat \<Rightarrow> nat \<Rightarrow> int \<Rightarrow> int \<Rightarrow> int \<Rightarrow> int \<Rightarrow> int \<Rightarrow> int
     \<Rightarrow> event list \<Rightarrow> queue \<times> event list \<times> (error + event)" where
  "multiply_contig_row_contig_matrix_broadcast_impl exec_q host_tasks n0 n1
       vec_p vec_offset mat_p mat_offset res_p res_offset depends =
     multiply_contig_matrix_contig_row_broadcast_impl exec_q host_tasks n0 n1
       mat_p mat_offset vec_p vec_offset res_p res_offset depends"

subsection \<open>The fill kernel\<close>




subsection \<open>Execution orders\<close>

text \<open>
  Modelled from the spec: the queue abstraction (\<open>handler.depends_on\<close>) is outside
  the sources. A command group starts only after the events it depends on have
  completed. \<open>executes_in_order cgs completed order\<close>: the events of \<open>order\<close>
  complete one after the other, each one submitted, not yet completed, and with all
  its dependencies completed before it.
\<close>

fun executes_in_order :: "command_group list \<Rightarrow> event list \<Rightarrow> event list \<Rightarrow> bool" where
  "executes_in_order cgs completed [] = True"
| "executes_in_order cgs completed (e # es) =
     (e < length cgs \<and> e \<notin> set completed
      \<and> list_all (\<lambda>d. d \<in> set completed) (cg_depends (cgs ! e))
      \<and> executes_in_order cgs (completed @ [e]) es)"

section \<open>Boolean reductions (boolean_reductions.hpp)\<close>

text \<open>
  The result type \<open>resTy\<close> of both reductions is \<open>std::int32_t\<close>. The input and
  the output array are seen through their typed pointers: \<open>inp k\<close> is \<open>inp_[k]\<close>,
  with \<open>k\<close> a signed element offset (\<open>py::ssize_t\<close>). Sizes and work-item ids
  (\<open>size_t\<close>) are natural numbers, as above.
\<close>

type_synonym int32 = "32 word"

text \<open>
  The source element type \<open>argT\<close> is a type variable. Two conversions of
  utils/type_utils.hpp and of the C++ language, which are not among the sources, are
  parameters: \<open>convert_impl<bool, argT>\<close> and the implicit conversion from
  \<open>std::int32_t\<close> to \<open>argT\<close>.
\<close>

record 'a srcTy =
  convert_impl_bool :: "'a \<Rightarrow> bool"
  from_int32 :: "int32 \<Rightarrow> 'a"

text \<open>
  Modelled from the spec: the SYCL function objects \<open>sycl::logical_and<int32_t>\<close>
  and \<open>sycl::logical_or<int32_t>\<close> (\<open>x && y\<close> and \<open>x || y\<close>, converted to
  \<open>int32_t\<close>) and their \<open>sycl::known_identity\<close>, the operator's neutral element:
  true for "all", false for "any".
\<close>

datatype RedOpT = logical_and | logical_or

fun reduction_op :: "RedOpT \<Rightarrow> int32 \<Rightarrow> int32 \<Rightarrow> int32" where
  "reduction_op logical_and x y = of_bool (x \<noteq> 0 \<and> y \<noteq> 0)"
| "reduction_op logical_or x y = of_bool (x \<noteq> 0 \<or> y \<noteq> 0)"

fun known_identity :: "RedOpT \<Rightarrow> int32" where
  "known_identity logical_and = 1"
| "known_identity logical_or = 0"

text \<open>\<open>boolean_predicate<T>\<close>.\<close>

definition boolean_predicate :: "'a srcTy \<Rightarrow> 'a \<Rightarrow> bool" where
  "boolean_predicate ty v = convert_impl_bool ty v"

text \<open>
  Modelled from the spec: the SYCL group algorithms. \<open>joint_all_of\<close> and
  \<open>joint_any_of\<close> test the predicate on the elements of the pointer range
  \<open>[first, last)\<close>; \<open>all_of_group\<close> and \<open>any_of_group\<close> test it on the value
  each work-item of the group contributes.
\<close>

definition joint_all_of :: "(int \<Rightarrow> 'a) \<Rightarrow> nat \<Rightarrow> nat \<Rightarrow> ('a \<Rightarrow> bool) \<Rightarrow> bool" where
  "joint_all_of inp first lst pred = list_all (\<lambda>k. pred (inp (int k))) [first..<lst]"

definition joint_any_of :: "(int \<Rightarrow> 'a) \<Rightarrow> nat \<Rightarrow> nat \<Rightarrow> ('a \<Rightarrow> bool) \<Rightarrow> bool" where
  "joint_any_of inp first lst pred = list_ex (\<lambda>k. pred (inp (int k))) [first..<lst]"

definition all_of_group :: "'b list \<Rightarrow> ('b \<Rightarrow> bool) \<Rightarrow> bool" where
  "all_of_group xs pred = list_all pred xs"

definition any_of_group :: "'b list \<Rightarrow> ('b \<Rightarrow> bool) \<Rightarrow> bool" where
  "any_of_group xs pred = list_ex pred xs"

text \<open>The four group operations of the source.\<close>

definition all_reduce_wg_contig :: "'a srcTy \<Rightarrow> (int \<Rightarrow> 'a) \<Rightarrow> nat \<Rightarrow> nat \<Rightarrow> int32" where
  "all_reduce_wg_contig ty inp start end = of_bool (joint_all_of inp start end (boolean_predicate ty))"

definition any_reduce_wg_contig :: "'a srcTy \<Rightarrow> (int \<Rightarrow> 'a) \<Rightarrow> nat \<Rightarrow> nat \<Rightarrow> int32" where
  "any_reduce_wg_contig ty inp start end = of_bool (joint_any_of inp start end (boolean_predicate ty))"

text \<open>
  In the strided variants the predicate \<open>boolean_predicate<srcTy>\<close> is applied to
  the work-items' local values of type \<open>int32_t\<close>, which C++ converts to \<open>srcTy\<close>
  first.
\<close>

definition all_reduce_wg_strided :: "'a srcTy \<Rightarrow> int32 list \<Rightarrow> int32" where
  "all_reduce_wg_strided ty local_vals =
     of_bool (all_of_group local_vals (\<lambda>v. boolean_predicate ty (from_int32 ty v)))"

definition any_reduce_wg_strided :: "'a srcTy \<Rightarrow> int32 list \<Rightarrow> int32" where
  "any_reduce_wg_strided ty local_vals =
     of_bool (any_of_group local_vals (\<lambda>v. boolean_predicate ty (from_int32 ty v)))"

subsection \<open>Indexers\<close>

text \<open>
  Modelled from the spec: the indexers of utils/offset_utils.hpp are not among the
  sources. The no-op indexer is the identity, the flat-strided-1D indexer maps \<open>i\<close> to
  \<open>offset + i * step\<close>, and a two-offsets composite pairs two indexers. The
  N-dimensional strided indexers are parameters of the strided launcher below.
\<close>

definition NoOpIndexer :: "nat \<Rightarrow> int" where
  "NoOpIndexer gid = int gid"

definition Strided1DIndexer :: "int \<Rightarrow> int \<Rightarrow> int \<Rightarrow> nat \<Rightarrow> int" where
  "Strided1DIndexer offset sz step gid = offset + int gid * step"

definition TwoOffsets_CombinedIndexer :: "(nat \<Rightarrow> int) \<Rightarrow> (nat \<Rightarrow> int) \<Rightarrow> nat \<Rightarrow> int \<times> int" where
  "TwoOffsets_CombinedIndexer first_indexer second_indexer gid =
     (first_indexer gid, second_indexer gid)"

subsection \<open>Kernels\<close>

text \<open>
  \<open>SequentialBooleanReduction::operator()\<close>: one work-item folds a whole reduction
  and stores the result.
\<close>

definition SequentialBooleanReduction ::
  "'a srcTy \<Rightarrow> (int \<Rightarrow> 'a) \<Rightarrow> RedOpT \<Rightarrow> int32 \<Rightarrow> (nat \<Rightarrow> int \<times> int) \<Rightarrow> (nat \<Rightarrow> int) \<Rightarrow> nat
     \<Rightarrow> nat \<Rightarrow> (int \<Rightarrow> int32) \<Rightarrow> (int \<Rightarrow> int32)" where
  "SequentialBooleanReduction ty inp red_op identity inp_out_iter_indexer
       inp_reduced_dims_indexer reduction_max_gid id0 out =
     (let (inp_iter_offset, out_iter_offset) = inp_out_iter_indexer id0;
          red_val =
            fold (\<lambda>m red_val.
                    let inp_reduction_offset = inp_reduced_dims_indexer m;
                        inp_offset = inp_iter_offset + inp_reduction_offset;
                        val = of_bool (convert_impl_bool ty (inp inp_offset))
                    in reduction_op red_op red_val val)
              [0..<reduction_max_gid] identity
      in out(out_iter_offset := red_val))"

text \<open>
  \<open>compare_exchange_strong\<close> on the atomic reference to \<open>out[a]\<close>: success flag,
  the updated \<open>expected\<close> and the memory.
\<close>

definition compare_exchange_strong ::
  "(int \<Rightarrow> int32) \<Rightarrow> int \<Rightarrow> int32 \<Rightarrow> int32 \<Rightarrow> bool \<times> int32 \<times> (int \<Rightarrow> int32)" where
  "compare_exchange_strong out a expected desired =
     (if out a = expected then (True, expected, out(a := desired))
      else (False, out a, out))"

text \<open>
  The leader's loop \<open>do { new_val = op(read_val, red_val_over_wg); } while
  (!res_ref.compare_exchange_strong(read_val, new_val))\<close>. The work-groups of a kernel
  take their turns at the output slot one after the other, in an order that is a
  parameter of the kernel.
\<close>

function atomic_combine :: "RedOpT \<Rightarrow> (int \<Rightarrow> int32) \<Rightarrow> int \<Rightarrow> int32 \<Rightarrow> int32 \<Rightarrow> (int \<Rightarrow> int32)" where
  "atomic_combine red_op out a read_val red_val_over_wg =
     (let new_val = reduction_op red_op read_val red_val_over_wg in
      case compare_exchange_strong out a read_val new_val of
        (ok, read_val', out') \<Rightarrow>
          if ok then out' else atomic_combine red_op out' a read_val' red_val_over_wg)"
  by pat_completeness auto
termination
  by (relation "measure (\<lambda>(red_op, out, a, read_val, v). if out a = read_val then 0 else 1)")
     (auto simp: compare_exchange_strong_def split: if_splits)

declare atomic_combine.simps [simp del]


text \<open>
  \<open>ContigBooleanReduction::operator()\<close>, for the work-items of one work-group: the
  range handed to the group operation, and the whole call.
\<close>

definition ContigBooleanReduction_range :: "nat \<Rightarrow> nat \<Rightarrow> nat \<Rightarrow> nat \<Rightarrow> nat \<Rightarrow> nat \<times> nat" where
  "ContigBooleanReduction_range reduction_max_gid reductions_per_wi wg_size
       reduction_id reduction_batch_id =
     (let base = reduction_id * reduction_max_gid;
          start = base + reduction_batch_id * wg_size * reductions_per_wi;
          end = min (start + reductions_per_wi * wg_size) (base + reduction_max_gid)
      in (start, end))"

definition ContigBooleanReduction ::
  "(int \<Rightarrow> 'a) \<Rightarrow> RedOpT \<Rightarrow> ((int \<Rightarrow> 'a) \<Rightarrow> nat \<Rightarrow> nat \<Rightarrow> int32) \<Rightarrow> nat \<Rightarrow> nat \<Rightarrow> nat
     \<Rightarrow> nat \<times> nat \<Rightarrow> (int \<Rightarrow> int32) \<Rightarrow> (int \<Rightarrow> int32)" where
  "ContigBooleanReduction inp red_op group_op reduction_max_gid reductions_per_wi wg_size
       g out =
     (let reduction_id = fst g;
          reduction_batch_id = snd g;
          (start, end) = ContigBooleanReduction_range reduction_max_gid reductions_per_wi
                            wg_size reduction_id reduction_batch_id;
          red_val_over_wg = group_op inp start end;
          read_val = out (int reduction_id)
      in atomic_combine red_op out (int reduction_id) read_val red_val_over_wg)"

text \<open>
  \<open>StridedBooleanReduction::operator()\<close>. First the local fold of the work-item
  \<open>reduction_lid\<close> of batch \<open>reduction_batch_id\<close>; it returns the local value
  together with the list of the reduction indices at which it has read the input.
\<close>

definition StridedBooleanReduction_local ::
  "'a srcTy \<Rightarrow> (int \<Rightarrow> 'a) \<Rightarrow> RedOpT \<Rightarrow> int32 \<Rightarrow> int \<Rightarrow> (nat \<Rightarrow> int) \<Rightarrow> nat \<Rightarrow> nat \<Rightarrow> nat
     \<Rightarrow> nat \<Rightarrow> nat \<Rightarrow> int32 \<times> nat list" where
  "StridedBooleanReduction_local ty inp red_op identity inp_iter_offset
       inp_reduced_dims_indexer reduction_max_gid reductions_per_wi wg_size
       reduction_batch_id reduction_lid =
     (let arg_reduce_gid0 = reduction_lid + reduction_batch_id * wg_size * reductions_per_wi
      in fold (\<lambda>m (local_red_val, reads).
                 let arg_reduce_gid = arg_reduce_gid0 + m * wg_size in
                 if arg_reduce_gid < reduction_max_gid then
                   (let inp_reduction_offset = inp_reduced_dims_indexer arg_reduce_gid;
                        inp_offset = inp_iter_offset + inp_reduction_offset;
                        val = of_bool (convert_impl_bool ty (inp inp_offset))
                    in (reduction_op red_op local_red_val val, reads @ [arg_reduce_gid]))
                 else (local_red_val, reads))
           [0..<reductions_per_wi] (identity, []))"

text \<open>The whole call, for the \<open>wg_size\<close> work-items of one work-group.\<close>

definition StridedBooleanReduction ::
  "'a srcTy \<Rightarrow> (int \<Rightarrow> 'a) \<Rightarrow> RedOpT \<Rightarrow> (int32 list \<Rightarrow> int32) \<Rightarrow> int32
     \<Rightarrow> (nat \<Rightarrow> int \<times> int) \<Rightarrow> (nat \<Rightarrow> int) \<Rightarrow> nat \<Rightarrow> nat \<Rightarrow> nat
     \<Rightarrow> nat \<times> nat \<Rightarrow> (int \<Rightarrow> int32) \<Rightarrow> (int \<Rightarrow> int32)" where
  "StridedBooleanReduction ty inp red_op group_op identity inp_out_iter_indexer
       inp_reduced_dims_indexer reduction_max_gid reductions_per_wi wg_size g out =
     (let reduction_id = fst g;
          reduction_batch_id = snd g;
          (inp_iter_offset, out_iter_offset) = inp_out_iter_indexer reduction_id;
          local_red_vals =
            map (\<lambda>reduction_lid.
                   fst (StridedBooleanReduction_local ty inp red_op identity inp_iter_offset
                          inp_reduced_dims_indexer reduction_max_gid reductions_per_wi
                          wg_size reduction_batch_id reduction_lid))
              [0..<wg_size];
          red_val_over_wg = group_op local_red_vals;
          read_val = out out_iter_offset
      in atomic_combine red_op out out_iter_offset read_val red_val_over_wg)"

subsection \<open>Launchers\<close>

text \<open>The launch parameters of the large-reduction path, computed alike by both launchers.\<close>

definition reductions_per_wi_of :: "nat \<Rightarrow> nat \<Rightarrow> nat" where
  "reductions_per_wi_of reduction_nelems wg =
     (let preferred_reductions_per_wi = 4
      in if reduction_nelems < preferred_reductions_per_wi * wg
         then (reduction_nelems + wg - 1) div wg
         else preferred_reductions_per_wi)"


definition work_group_size :: "nat list \<Rightarrow> nat" where
  "work_group_size sg_sizes = 4 * max_element sg_sizes"

text \<open>
  The two paths of \<open>boolean_reduction_contig_impl\<close> on the arrays seen through
  \<open>arg_tp\<close> and \<open>res_tp\<close>. A one-dimensional \<open>parallel_for\<close> runs its work-items
  in the order of their ids; the work-groups of the two-dimensional kernel run in the
  order \<open>wg_order\<close>, which the device chooses. The reduction kernel depends on the
  event of the initialisation kernel, so it runs on the initialised output.
\<close>

definition boolean_reduction_contig_small ::
  "'a srcTy \<Rightarrow> RedOpT \<Rightarrow> nat \<Rightarrow> nat \<Rightarrow> (int \<Rightarrow> 'a) \<Rightarrow> (int \<Rightarrow> int32) \<Rightarrow> (int \<Rightarrow> int32)" where
  "boolean_reduction_contig_small ty red_op iter_nelems reduction_nelems arg_tp res_tp =
     (let identity_val = known_identity red_op;
          in_out_iter_indexer =
            TwoOffsets_CombinedIndexer
              (Strided1DIndexer 0 (int iter_nelems) (int reduction_nelems)) NoOpIndexer;
          reduction_indexer = NoOpIndexer
      in fold (SequentialBooleanReduction ty arg_tp red_op identity_val in_out_iter_indexer
                 reduction_indexer reduction_nelems)
           [0..<iter_nelems] res_tp)"

definition boolean_reduction_contig_large ::
  "RedOpT \<Rightarrow> ((int \<Rightarrow> 'a) \<Rightarrow> nat \<Rightarrow> nat \<Rightarrow> int32) \<Rightarrow> nat \<Rightarrow> (nat \<times> nat) list \<Rightarrow> nat \<Rightarrow> nat
     \<Rightarrow> (int \<Rightarrow> 'a) \<Rightarrow> (int \<Rightarrow> int32) \<Rightarrow> (int \<Rightarrow> int32)" where
  "boolean_reduction_contig_large red_op group_op wg wg_order iter_nelems reduction_nelems
       arg_tp res_tp =
     (let identity_val = known_identity red_op;
          res_indexer = NoOpIndexer;
          res_init =
            fold (\<lambda>id0 out. let res_offset = res_indexer id0 in out(res_offset := identity_val))
              [0..<iter_nelems] res_tp;
          reductions_per_wi = reductions_per_wi_of reduction_nelems wg
      in fold (ContigBooleanReduction arg_tp red_op group_op reduction_nelems
                 reductions_per_wi wg)
           wg_order res_init)"

definition boolean_reduction_contig_impl ::
  "'a srcTy \<Rightarrow> RedOpT \<Rightarrow> ((int \<Rightarrow> 'a) \<Rightarrow> nat \<Rightarrow> nat \<Rightarrow> int32) \<Rightarrow> nat list \<Rightarrow> (nat \<times> nat) list
     \<Rightarrow> nat \<Rightarrow> nat \<Rightarrow> (int \<Rightarrow> 'a) \<Rightarrow> (int \<Rightarrow> int32) \<Rightarrow> int \<Rightarrow> int \<Rightarrow> int
     \<Rightarrow> (int \<Rightarrow> int32)" where
  "boolean_reduction_contig_impl ty red_op group_op sg_sizes wg_order iter_nelems
       reduction_nelems arg_cp res_cp iter_arg_offset iter_res_offset red_arg_offset =
     (let arg_tp = (\<lambda>k. arg_cp (k + iter_arg_offset + red_arg_offset));
          res_tp = (\<lambda>k. res_cp (k + iter_res_offset));
          wg = work_group_size sg_sizes;
          res_tp' =
            (if reduction_nelems < wg
             then boolean_reduction_contig_small ty red_op iter_nelems reduction_nelems
                    arg_tp res_tp
             else boolean_reduction_contig_large red_op group_op wg wg_order iter_nelems
                    reduction_nelems arg_tp res_tp)
      in (\<lambda>a. res_tp' (a - iter_res_offset)))"

text \<open>
  \<open>boolean_reduction_strided_impl\<close>. Its indexers are built from the packed shape
  and stride arrays by constructors that are not among the sources; they are the
  parameters \<open>iter_arg_indexer\<close>, \<open>iter_res_indexer\<close> (the two offsets of
  \<open>TwoOffsets_StridedIndexer\<close>, with \<open>iter_arg_offset\<close> and
  \<open>iter_res_offset\<close> added) and \<open>reduction_indexer\<close>. The indexer of the
  initialisation kernel is built from the same shape, the same result strides and the
  same \<open>iter_res_offset\<close> as the second offset of the iteration indexer: it is
  \<open>iter_res_indexer\<close>.
\<close>

definition boolean_reduction_strided_small ::
  "'a srcTy \<Rightarrow> RedOpT \<Rightarrow> nat \<Rightarrow> nat \<Rightarrow> (int \<Rightarrow> 'a) \<Rightarrow> (int \<Rightarrow> int32)
     \<Rightarrow> (nat \<Rightarrow> int) \<Rightarrow> (nat \<Rightarrow> int) \<Rightarrow> (nat \<Rightarrow> int) \<Rightarrow> (int \<Rightarrow> int32)" where
  "boolean_reduction_strided_small ty red_op iter_nelems reduction_nelems arg_tp res_tp
       iter_arg_indexer iter_res_indexer reduction_indexer =
     (let identity_val = known_identity red_op;
          in_out_iter_indexer = TwoOffsets_CombinedIndexer iter_arg_indexer iter_res_indexer
      in fold (SequentialBooleanReduction ty arg_tp red_op identity_val in_out_iter_indexer
                 reduction_indexer reduction_nelems)
           [0..<iter_nelems] res_tp)"

definition boolean_reduction_strided_large ::
  "'a srcTy \<Rightarrow> RedOpT \<Rightarrow> (int32 list \<Rightarrow> int32) \<Rightarrow> nat \<Rightarrow> (nat \<times> nat) list \<Rightarrow> nat \<Rightarrow> nat
     \<Rightarrow> (int \<Rightarrow> 'a) \<Rightarrow> (int \<Rightarrow> int32)
     \<Rightarrow> (nat \<Rightarrow> int) \<Rightarrow> (nat \<Rightarrow> int) \<Rightarrow> (nat \<Rightarrow> int) \<Rightarrow> (int \<Rightarrow> int32)" where
  "boolean_reduction_strided_large ty red_op group_op wg wg_order iter_nelems
       reduction_nelems arg_tp res_tp iter_arg_indexer iter_res_indexer reduction_indexer =
     (let identity_val = known_identity red_op;
          res_indexer = iter_res_indexer;
          res_init =
            fold (\<lambda>id0 out. let res_offset = res_indexer id0 in out(res_offset := identity_val))
              [0..<iter_nelems] res_tp;
          in_out_iter_indexer = TwoOffsets_CombinedIndexer iter_arg_indexer iter_res_indexer;
          reductions_per_wi = reductions_per_wi_of reduction_nelems wg
      in fold (StridedBooleanReduction ty arg_tp red_op group_op identity_val
                 in_out_iter_indexer reduction_indexer reduction_nelems reductions_per_wi wg)
           wg_order res_init)"

definition boolean_reduction_strided_impl ::
  "'a srcTy \<Rightarrow> RedOpT \<Rightarrow> (int32 list \<Rightarrow> int32) \<Rightarrow> nat list \<Rightarrow> (nat \<times> nat) list \<Rightarrow> nat \<Rightarrow> nat
     \<Rightarrow> (int \<Rightarrow> 'a) \<Rightarrow> (int \<Rightarrow> int32)
     \<Rightarrow> (nat \<Rightarrow> int) \<Rightarrow> (nat \<Rightarrow> int) \<Rightarrow> (nat \<Rightarrow> int) \<Rightarrow> (int \<Rightarrow> int32)" where
  "boolean_reduction_strided_impl ty red_op group_op sg_sizes wg_order iter_nelems
       reduction_nelems arg_cp res_cp iter_arg_indexer iter_res_indexer reduction_indexer =
     (let arg_tp = arg_cp;
          res_tp = res_cp;
          wg = work_group_size sg_sizes
      in if reduction_nelems < wg
         then boolean_reduction_strided_small ty red_op iter_nelems reduction_nelems
                arg_tp res_tp iter_arg_indexer iter_res_indexer reduction_indexer
         else boolean_reduction_strided_large ty red_op group_op wg wg_order iter_nelems
                reduction_nelems arg_tp res_tp iter_arg_indexer iter_res_indexer
                reduction_indexer)"



text \<open>The factories: "all" and "any", contiguous and strided.\<close>

definition AllContigFactory_get where
  "AllContigFactory_get ty =
     boolean_reduction_contig_impl ty logical_and (all_reduce_wg_contig ty)"

definition AnyContigFactory_get where
  "AnyContigFactory_get ty =
     boolean_reduction_contig_impl ty logical_or (any_reduce_wg_contig ty)"

definition AllStridedFactory_get where
  "AllStridedFactory_get ty =
     boolean_reduction_strided_impl ty logical_and (all_reduce_wg_strided ty)"

definition AnyStridedFactory_get where
  "AnyStridedFactory_get ty =
     boolean_reduction_strided_impl ty logical_or (any_reduce_wg_strided ty)"

text \<open>
  The meaning of the two reductions over a set of indices, for the proofs that relate
  the kernels: "all" asks the predicate of every index, "any" of some index.
\<close>

fun red_quantifier :: "RedOpT \<Rightarrow> 'i set \<Rightarrow> ('i \<Rightarrow> bool) \<Rightarrow> bool" where
  "red_quantifier logical_and S P = (\<forall>i\<in>S. P i)"
| "red_quantifier logical_or S P = (\<exists>i\<in>S. P i)"

section \<open>Theorems: promotion table and factories\<close>

lemma all_elem_types_UNIV: "set all_elem_types = UNIV"
proof -
  have "T \<in> set all_elem_types" for T
    by (cases T) (simp_all add: all_elem_types_def)
  then show ?thesis by blast
qed

lemma all_elem_types_distinct: "distinct all_elem_types"
  by (simp add: all_elem_types_def)

lemma MultiplyOutputType_same: "MultiplyOutputType T T = Some T"
  by (cases T) (simp_all add: MultiplyOutputType_def MultiplyOutputType_entries_def)

lemma MultiplyOutputType_distinct: "T1 \<noteq> T2 \<Longrightarrow> MultiplyOutputType T1 T2 = None"
  by (cases T1; cases T2)
     (simp_all add: MultiplyOutputType_def MultiplyOutputType_entries_def)

lemma disjunction_find:
  "bs \<noteq> [] \<Longrightarrow> entry_value (last bs) \<Longrightarrow> disjunction bs = find entry_value bs"
  by (induction bs rule: disjunction.induct) (auto split: if_splits)

text \<open>
  C1. For every pair \<open>(T1, T2)\<close> of the fourteen element types, the multiply
  type-promotion lookup returns the result type of the first matching entry of its
  ordered table (the default entry, carrying \<open>void\<close>, matches when no other does); the
  table lists exactly the fourteen same-type pairs, each with that type as result,
  followed by the default entry; so \<open>(T, T)\<close> resolves to \<open>T\<close> and a pair of two
  distinct types resolves to Unsupported. The lookup is a function of the pair, hence
  deterministic.
\<close>

theorem C1_multiply_promotion_lookup:
  "MultiplyOutputType T1 T2 =
     (case find entry_value (MultiplyOutputType_entries T1 T2) of
        None \<Rightarrow> None | Some e \<Rightarrow> result_type e)
   \<and> MultiplyOutputType_entries T1 T2 =
       map (\<lambda>T. BinaryTypeMapResultEntry T1 T T2 T T) all_elem_types
         @ [DefaultResultEntry None]
   \<and> distinct all_elem_types \<and> set all_elem_types = UNIV \<and> length all_elem_types = 14
   \<and> MultiplyOutputType T1 T2 = (if T1 = T2 then Some T1 else None)"
proof -
  have entries: "MultiplyOutputType_entries T1 T2 =
       map (\<lambda>T. BinaryTypeMapResultEntry T1 T T2 T T) all_elem_types
         @ [DefaultResultEntry None]"
    by (simp add: MultiplyOutputType_entries_def all_elem_types_def)
  have "disjunction (MultiplyOutputType_entries T1 T2) =
        find entry_value (MultiplyOutputType_entries T1 T2)"
    by (rule disjunction_find) (simp_all add: entries)
  then have first: "MultiplyOutputType T1 T2 =
     (case find entry_value (MultiplyOutputType_entries T1 T2) of
        None \<Rightarrow> None | Some e \<Rightarrow> result_type e)"
    by (simp add: MultiplyOutputType_def)
  have len: "length all_elem_types = 14"
    by (simp add: all_elem_types_def)
  have res: "MultiplyOutputType T1 T2 = (if T1 = T2 then Some T1 else None)"
    by (simp add: MultiplyOutputType_same MultiplyOutputType_distinct)
  from first entries all_elem_types_distinct all_elem_types_UNIV len res
  show ?thesis by blast
qed

text \<open>
  C2. For every type pair, \<open>get()\<close> of the contiguous and of the strided factory is
  null exactly when the promotion result is \<open>void\<close>; \<open>get()\<close> of the matrix-row
  and of the row-matrix broadcast factory is null exactly when the promotion result is
  \<open>void\<close> or one of \<open>T1\<close>, \<open>T2\<close>, the result type is complex; in every other
  case \<open>get()\<close> is the launcher instantiated at these types.
\<close>

theorem C2_factory_get_null_iff:
  "(MultiplyContigFactory_get T1 T2 = nullptr) = (MultiplyOutputType T1 T2 = None)
   \<and> (MultiplyStridedFactory_get T1 T2 = nullptr) = (MultiplyOutputType T1 T2 = None)
   \<and> (MultiplyContigMatrixContigRowBroadcastFactory_get T1 T2 = nullptr) =
       (MultiplyOutputType T1 T2 = None \<or> is_complex T1 \<or> is_complex T2
        \<or> (\<exists>resT. MultiplyOutputType T1 T2 = Some resT \<and> is_complex resT))
   \<and> (MultiplyContigRowContigMatrixBroadcastFactory_get T1 T2 = nullptr) =
       (MultiplyOutputType T1 T2 = None \<or> is_complex T1 \<or> is_complex T2
        \<or> (\<exists>resT. MultiplyOutputType T1 T2 = Some resT \<and> is_complex resT))
   \<and> (\<forall>resT. MultiplyOutputType T1 T2 = Some resT \<longrightarrow>
         MultiplyContigFactory_get T1 T2 = Fn_multiply_contig_impl T1 T2
       \<and> MultiplyStridedFactory_get T1 T2 = Fn_multiply_strided_impl T1 T2
       \<and> (\<not> is_complex T1 \<and> \<not> is_complex T2 \<and> \<not> is_complex resT \<longrightarrow>
            MultiplyContigMatrixContigRowBroadcastFactory_get T1 T2 =
              Fn_multiply_contig_matrix_contig_row_broadcast_impl T1 T2 resT
          \<and> MultiplyContigRowContigMatrixBroadcastFactory_get T1 T2 =
              Fn_multiply_contig_row_contig_matrix_broadcast_impl T1 T2 resT))"
  by (cases "MultiplyOutputType T1 T2")
     (simp_all add: MultiplyContigFactory_get_def MultiplyStridedFactory_get_def
        MultiplyContigMatrixContigRowBroadcastFactory_get_def
        MultiplyContigRowContigMatrixBroadcastFactory_get_def)

theorem C2_factory_get_witness:
  "MultiplyOutputType T_int32 T_int32 = Some T_int32
   \<and> MultiplyContigFactory_get T_int32 T_int32 = Fn_multiply_contig_impl T_int32 T_int32
   \<and> MultiplyStridedFactory_get T_int32 T_int32 = Fn_multiply_strided_impl T_int32 T_int32
   \<and> MultiplyContigMatrixContigRowBroadcastFactory_get T_int32 T_int32 =
       Fn_multiply_contig_matrix_contig_row_broadcast_impl T_int32 T_int32 T_int32
   \<and> MultiplyContigRowContigMatrixBroadcastFactory_get T_int32 T_int32 =
       Fn_multiply_contig_row_contig_matrix_broadcast_impl T_int32 T_int32 T_int32
   \<and> MultiplyContigMatrixContigRowBroadcastFactory_get T_cfloat T_cfloat = nullptr
   \<and> MultiplyContigFactory_get T_cfloat T_cfloat \<noteq> nullptr
   \<and> MultiplyContigFactory_get T_int32 T_float = nullptr"
proof -
  have r: "MultiplyOutputType T_int32 T_int32 = Some T_int32"
    by (simp add: MultiplyOutputType_same)
  have c: "MultiplyOutputType T_cfloat T_cfloat = Some T_cfloat"
    by (simp add: MultiplyOutputType_same)
  have d: "MultiplyOutputType T_int32 T_float = None"
    by (simp add: MultiplyOutputType_distinct)
  show ?thesis
    using r c d C2_factory_get_null_iff [of T_int32 T_int32]
      C2_factory_get_null_iff [of T_cfloat T_cfloat]
      C2_factory_get_null_iff [of T_int32 T_float]
    by simp
qed

section \<open>Theorems: flags\<close>

lemma and_single_bit_eq: "((f::int) AND 2 ^ k = 2 ^ k) = bit f k"
proof
  assume "f AND 2 ^ k = 2 ^ k"
  then have "bit (f AND 2 ^ k) k" by (simp add: bit_exp_iff)
  then show "bit f k" by (simp add: bit_and_iff)
next
  assume "bit f k"
  then show "f AND 2 ^ k = 2 ^ k"
    by (intro bit_eqI) (auto simp: bit_and_iff bit_exp_iff)
qed

text \<open>
  C10. For every flags bitmask, \<open>Flags.writable\<close> is True exactly when the
  \<open>USM_ARRAY_WRITEABLE\<close> bit (a single bit \<open>2 ^ k\<close>) is not set in the stored flags
  and False when it is set; the key "WRITABLE" of \<open>__getitem__\<close> returns the same
  value.
\<close>

theorem C10_writable_inverted:
  "writable (K\<lparr>USM_ARRAY_WRITEABLE := 2 ^ k\<rparr>) self = (\<not> bit (flags_field self) k)
   \<and> getitem (K\<lparr>USM_ARRAY_WRITEABLE := 2 ^ k\<rparr>) self ''WRITABLE'' =
       Some (writable (K\<lparr>USM_ARRAY_WRITEABLE := 2 ^ k\<rparr>) self)"
  by (simp add: writable_def getitem_def flags_def and_single_bit_eq)

section \<open>Theorems: the matrix-row broadcast launcher\<close>



lemma launcher_alloc_failure:
  assumes "malloc_device_result exec_q (n1 + max_element (sub_group_sizes exec_q)) = None"
  shows "multiply_contig_matrix_contig_row_broadcast_impl exec_q host_tasks n0 n1
           mat_p mat_offset vec_p vec_offset res_p res_offset depends =
         (exec_q\<lparr>malloc_log := malloc_log exec_q @ [n1 + max_element (sub_group_sizes exec_q)]\<rparr>,
          host_tasks, Inl (runtime_error ''Could not allocate memory on the device''))"
  using assms
  by (simp add: multiply_contig_matrix_contig_row_broadcast_impl_def malloc_device_def Let_def)

lemma launcher_success:
  assumes "malloc_device_result exec_q (n1 + max_element (sub_group_sizes exec_q)) = Some pv"
  shows "multiply_contig_matrix_contig_row_broadcast_impl exec_q host_tasks n0 n1
           mat_p mat_offset vec_p vec_offset res_p res_offset depends =
         (exec_q\<lparr>malloc_log := malloc_log exec_q @ [n1 + max_element (sub_group_sizes exec_q)],
                 submitted := submitted exec_q @
                   [\<lparr>cg_depends = depends,
                     cg_command = Make_padded_vec_kernel
                       (n1 + max_element (sub_group_sizes exec_q)) pv (vec_p + vec_offset) n1\<rparr>,
                    \<lparr>cg_depends = [length (submitted exec_q)],
                     cg_command = Multiply_matrix_row_broadcast_sg_krn
                       ((n0 * n1 + 64 - 1) div 64 * 64) 64 (mat_p + mat_offset) pv
                       (res_p + res_offset) (n0 * n1) n1\<rparr>,
                    \<lparr>cg_depends = [length (submitted exec_q) + 1],
                     cg_command = Host_task_free pv\<rparr>]\<rparr>,
          host_tasks @ [length (submitted exec_q) + 2],
          Inr (length (submitted exec_q) + 1))"
  using assms
  by (simp add: multiply_contig_matrix_contig_row_broadcast_impl_def malloc_device_def
      submit_def Let_def)


lemma executes_in_order_depends:
  "executes_in_order cgs completed order \<Longrightarrow> e \<in> set order \<Longrightarrow>
   d \<in> set (cg_depends (cgs ! e)) \<Longrightarrow>
   \<exists>pre post. order = pre @ e # post \<and> d \<in> set completed \<union> set pre"
proof (induction order arbitrary: completed)
  case Nil
  then show ?case by simp
next
  case (Cons x order)
  show ?case
  proof (cases "x = e")
    case True
    with Cons.prems have "d \<in> set completed"
      by (simp add: list_all_iff)
    with True have "x # order = [] @ e # order \<and> d \<in> set completed \<union> set []"
      by simp
    then show ?thesis by blast
  next
    case False
    with Cons.prems have "executes_in_order cgs (completed @ [x]) order" "e \<in> set order"
      by simp_all
    from Cons.IH [OF this Cons.prems(3)]
    obtain pre post where "order = pre @ e # post" "d \<in> set (completed @ [x]) \<union> set pre"
      by blast
    then have "x # order = (x # pre) @ e # post \<and> d \<in> set completed \<union> set (x # pre)"
      by auto
    then show ?thesis by blast
  qed
qed




text \<open>
  C7. In every invocation of the matrix-row broadcast launcher that obtains its scratch
  vector, the host task that frees the vector is submitted once, depending on the
  completion event of the compute kernel that reads the vector, so in every execution
  order that respects the dependencies the free runs after that kernel has completed;
  and the cleanup task's event is appended to the caller's \<open>host_tasks\<close> exactly
  once.
\<close>

theorem C7_cleanup_after_compute:
  assumes "sub_group_sizes exec_q \<noteq> []"
    and "malloc_device_result exec_q (n1 + max_element (sub_group_sizes exec_q)) = Some pv"
  shows "\<exists>q' comp_ev tmp_cleanup_ev.
     multiply_contig_matrix_contig_row_broadcast_impl exec_q host_tasks n0 n1
       mat_p mat_offset vec_p vec_offset res_p res_offset depends
       = (q', host_tasks @ [tmp_cleanup_ev], Inr comp_ev)
     \<and> length (submitted q') = length (submitted exec_q) + 3
     \<and> take (length (submitted exec_q)) (submitted q') = submitted exec_q
     \<and> comp_ev = length (submitted exec_q) + 1
     \<and> tmp_cleanup_ev = length (submitted exec_q) + 2
     \<and> submitted q' ! tmp_cleanup_ev =
          \<lparr>cg_depends = [comp_ev], cg_command = Host_task_free pv\<rparr>
     \<and> (\<exists>gws lws mat res n_elems. cg_command (submitted q' ! comp_ev) =
          Multiply_matrix_row_broadcast_sg_krn gws lws mat pv res n_elems n1)
     \<and> length (filter (\<lambda>cg. cg_command cg = Host_task_free pv)
                (drop (length (submitted exec_q)) (submitted q'))) = 1
     \<and> (\<forall>completed order.
           executes_in_order (submitted q') completed order \<and> tmp_cleanup_ev \<in> set order
           \<longrightarrow> (\<exists>pre post. order = pre @ tmp_cleanup_ev # post
                 \<and> comp_ev \<in> set completed \<union> set pre))"
proof -
  let ?m = "max_element (sub_group_sizes exec_q)"
  let ?k = "length (submitted exec_q)"
  let ?new = "[\<lparr>cg_depends = depends,
                     cg_command = Make_padded_vec_kernel (n1 + ?m) pv (vec_p + vec_offset) n1\<rparr>,
                    \<lparr>cg_depends = [?k],
                     cg_command = Multiply_matrix_row_broadcast_sg_krn
                       ((n0 * n1 + 64 - 1) div 64 * 64) 64 (mat_p + mat_offset) pv
                       (res_p + res_offset) (n0 * n1) n1\<rparr>,
                    \<lparr>cg_depends = [?k + 1], cg_command = Host_task_free pv\<rparr>]"
  let ?q' = "exec_q\<lparr>malloc_log := malloc_log exec_q @ [n1 + ?m],
                 submitted := submitted exec_q @ ?new\<rparr>"
  have L: "multiply_contig_matrix_contig_row_broadcast_impl exec_q host_tasks n0 n1
       mat_p mat_offset vec_p vec_offset res_p res_offset depends =
       (?q', host_tasks @ [?k + 2], Inr (?k + 1))"
    by (rule launcher_success [OF assms(2)])
  have len: "length (submitted ?q') = ?k + 3" by simp
  have tk: "take ?k (submitted ?q') = submitted exec_q" by simp
  have cl: "submitted ?q' ! (?k + 2) =
          \<lparr>cg_depends = [?k + 1], cg_command = Host_task_free pv\<rparr>"
    by (simp add: nth_append)
  have co: "cg_command (submitted ?q' ! (?k + 1)) =
          Multiply_matrix_row_broadcast_sg_krn ((n0 * n1 + 64 - 1) div 64 * 64) 64
            (mat_p + mat_offset) pv (res_p + res_offset) (n0 * n1) n1"
    by (simp add: nth_append)
  have once: "length (filter (\<lambda>cg. cg_command cg = Host_task_free pv)
                (drop ?k (submitted ?q'))) = 1"
    by simp
  have ord: "\<exists>pre post. order = pre @ (?k + 2) # post \<and> ?k + 1 \<in> set completed \<union> set pre"
    if "executes_in_order (submitted ?q') completed order \<and> ?k + 2 \<in> set order"
    for completed order
  proof -
    have "?k + 1 \<in> set (cg_depends (submitted ?q' ! (?k + 2)))"
      unfolding cl by simp
    with that show ?thesis
      using executes_in_order_depends by blast
  qed
  from L len tk cl co once ord show ?thesis
    by blast
qed


theorem C7_cleanup_after_compute_witness:
  "\<exists>q'. multiply_contig_matrix_contig_row_broadcast_impl
       \<lparr>sub_group_sizes = [8, 16, 32], malloc_device_result = (\<lambda>n. Some 1000),
        malloc_log = [], submitted = [\<lparr>cg_depends = [], cg_command = Host_task_free 7\<rparr>]\<rparr>
       [0] 2 3 0 0 100 0 200 0 [0] = (q', [0, 3], Inr 2)
     \<and> length (submitted q') = 4
     \<and> submitted q' ! 3 = \<lparr>cg_depends = [2], cg_command = Host_task_free 1000\<rparr>
     \<and> executes_in_order (submitted q') [0] [1, 2, 3]
     \<and> \<not> executes_in_order (submitted q') [0] [1, 3, 2]
     \<and> (\<exists>pre post. [1, 2, 3] = pre @ 3 # post \<and> (2::nat) \<in> set [0] \<union> set pre)"
proof -
  let ?q = "\<lparr>sub_group_sizes = [8, 16, 32], malloc_device_result = (\<lambda>n. Some 1000),
        malloc_log = [], submitted = [\<lparr>cg_depends = [], cg_command = Host_task_free 7\<rparr>]\<rparr>"
  have h1: "sub_group_sizes ?q \<noteq> []" by simp
  have h2: "malloc_device_result ?q (3 + max_element (sub_group_sizes ?q)) = Some 1000"
    by simp
  from C7_cleanup_after_compute [OF h1 h2, of "[0]" 2 0 0 100 0 200 0 "[0]"]
  obtain q' comp_ev tmp_cleanup_ev where
    L: "multiply_contig_matrix_contig_row_broadcast_impl ?q [0] 2 3 0 0 100 0 200 0 [0]
          = (q', [0] @ [tmp_cleanup_ev], Inr comp_ev)"
    and len: "length (submitted q') = length (submitted ?q) + 3"
    and c: "comp_ev = length (submitted ?q) + 1"
    and t: "tmp_cleanup_ev = length (submitted ?q) + 2"
    and cl: "submitted q' ! tmp_cleanup_ev =
          \<lparr>cg_depends = [comp_ev], cg_command = Host_task_free 1000\<rparr>"
    and ord: "\<forall>completed order.
           executes_in_order (submitted q') completed order \<and> tmp_cleanup_ev \<in> set order
           \<longrightarrow> (\<exists>pre post. order = pre @ tmp_cleanup_ev # post
                 \<and> comp_ev \<in> set completed \<union> set pre)"
    by blast
  have c2: "comp_ev = 2" and t3: "tmp_cleanup_ev = 3"
    using c t by simp_all
  have q': "submitted q' =
     [\<lparr>cg_depends = [], cg_command = Host_task_free 7\<rparr>,
      \<lparr>cg_depends = [0], cg_command = Make_padded_vec_kernel 35 1000 100 3\<rparr>,
      \<lparr>cg_depends = [1],
       cg_command = Multiply_matrix_row_broadcast_sg_krn 64 64 0 1000 200 6 3\<rparr>,
      \<lparr>cg_depends = [2], cg_command = Host_task_free 1000\<rparr>]"
    using L
    by (auto simp: multiply_contig_matrix_contig_row_broadcast_impl_def malloc_device_def
        submit_def Let_def max_element_def numeral_2_eq_2)
  have good: "executes_in_order (submitted q') [0] [1, 2, 3]"
    unfolding q' by simp
  have bad: "\<not> executes_in_order (submitted q') [0] [1, 3, 2]"
    unfolding q' by simp
  from good have "executes_in_order (submitted q') [0] [1, 2, 3] \<and> 3 \<in> set [1, 2, 3::nat]"
    by simp
  from ord [unfolded c2 t3, rule_format, OF this]
  have ex: "\<exists>pre post. [1, 2, 3] = pre @ 3 # post \<and> (2::nat) \<in> set [0] \<union> set pre" .
  from L len cl good bad ex show ?thesis
    unfolding c2 t3 by simp
qed

text \<open>
  C8. If the device allocation of the scratch vector fails (the allocator returns
  null), the launcher raises the error at the point of allocation: one allocation
  request has been made (no retry), nothing has been submitted to the queue (the
  submission list is unchanged) and \<open>host_tasks\<close> is unchanged.
\<close>

theorem C8_alloc_failure:
  assumes "sub_group_sizes exec_q \<noteq> []"
    and "malloc_device_result exec_q (n1 + max_element (sub_group_sizes exec_q)) = None"
  shows "\<exists>q'.
     multiply_contig_matrix_contig_row_broadcast_impl exec_q host_tasks n0 n1
       mat_p mat_offset vec_p vec_offset res_p res_offset depends
       = (q', host_tasks, Inl (runtime_error ''Could not allocate memory on the device''))
     \<and> submitted q' = submitted exec_q
     \<and> malloc_log q' = malloc_log exec_q @ [n1 + max_element (sub_group_sizes exec_q)]
     \<and> sub_group_sizes q' = sub_group_sizes exec_q
     \<and> malloc_device_result q' = malloc_device_result exec_q"
  unfolding launcher_alloc_failure [OF assms(2)] by simp

theorem C8_alloc_failure_witness:
  "multiply_contig_matrix_contig_row_broadcast_impl
       \<lparr>sub_group_sizes = [8, 16, 32], malloc_device_result = (\<lambda>n. None),
        malloc_log = [], submitted = [\<lparr>cg_depends = [], cg_command = Host_task_free 7\<rparr>]\<rparr>
       [0] 2 3 0 0 100 0 200 0 [0]
     = (\<lparr>sub_group_sizes = [8, 16, 32], malloc_device_result = (\<lambda>n. None),
        malloc_log = [35], submitted = [\<lparr>cg_depends = [], cg_command = Host_task_free 7\<rparr>]\<rparr>,
        [0], Inl (runtime_error ''Could not allocate memory on the device''))"
proof -
  let ?q = "\<lparr>sub_group_sizes = [8, 16, 32], malloc_device_result = (\<lambda>n. None),
        malloc_log = [], submitted = [\<lparr>cg_depends = [], cg_command = Host_task_free 7\<rparr>]\<rparr>"
  have h1: "sub_group_sizes ?q \<noteq> []" by simp
  have h2: "malloc_device_result ?q (3 + max_element (sub_group_sizes ?q)) = None"
    by simp
  have m: "max_element (sub_group_sizes ?q) = 32"
    by (simp add: max_element_def)
  from C8_alloc_failure [OF h1 h2, of "[0]" 2 0 0 100 0 200 0 "[0]"]
  obtain q' where
    L: "multiply_contig_matrix_contig_row_broadcast_impl ?q [0] 2 3 0 0 100 0 200 0 [0]
          = (q', [0], Inl (runtime_error ''Could not allocate memory on the device''))"
    and a: "submitted q' = submitted ?q"
    and b: "malloc_log q' = malloc_log ?q @ [3 + max_element (sub_group_sizes ?q)]"
    and c: "sub_group_sizes q' = sub_group_sizes ?q"
    and d: "malloc_device_result q' = malloc_device_result ?q"
    by blast
  have "q' = \<lparr>sub_group_sizes = [8, 16, 32], malloc_device_result = (\<lambda>n. None),
        malloc_log = [35], submitted = [\<lparr>cg_depends = [], cg_command = Host_task_free 7\<rparr>]\<rparr>"
    using a b c d unfolding m by (cases q') simp
  with L show ?thesis by simp
qed

section \<open>Theorems: boolean reductions\<close>


lemma reduction_op_of_bool:
  "reduction_op red_op (of_bool p) (of_bool q) =
     of_bool (case red_op of logical_and \<Rightarrow> p \<and> q | logical_or \<Rightarrow> p \<or> q)"
  by (cases red_op) simp_all

lemma reduction_op_of_bool_iff:
  "reduction_op red_op x y \<noteq> 0 \<longleftrightarrow>
     (case red_op of logical_and \<Rightarrow> x \<noteq> 0 \<and> y \<noteq> 0 | logical_or \<Rightarrow> x \<noteq> 0 \<or> y \<noteq> 0)"
  by (cases red_op) simp_all

lemma known_identity_of_bool: "known_identity red_op = of_bool (red_op = logical_and)"
  by (cases red_op) simp_all

lemma fold_reduction_op_gen:
  "fold (\<lambda>m acc. reduction_op red_op acc (of_bool (P m))) ms (of_bool b) =
     of_bool (case red_op of logical_and \<Rightarrow> b \<and> (\<forall>m\<in>set ms. P m)
                           | logical_or \<Rightarrow> b \<or> (\<exists>m\<in>set ms. P m))"
proof (induction ms arbitrary: b)
  case Nil
  then show ?case by (cases red_op) simp_all
next
  case (Cons m ms)
  let ?f = "\<lambda>m acc. reduction_op red_op acc (of_bool (P m))"
  let ?b' = "case red_op of logical_and \<Rightarrow> b \<and> P m | logical_or \<Rightarrow> b \<or> P m"
  have "fold ?f (m # ms) (of_bool b) = fold ?f ms (reduction_op red_op (of_bool b) (of_bool (P m)))"
    by simp
  also have "\<dots> = fold ?f ms (of_bool ?b')"
    by (simp only: reduction_op_of_bool)
  also have "\<dots> = of_bool (case red_op of logical_and \<Rightarrow> ?b' \<and> (\<forall>m\<in>set ms. P m)
                           | logical_or \<Rightarrow> ?b' \<or> (\<exists>m\<in>set ms. P m))"
    by (rule Cons.IH)
  also have "\<dots> = of_bool (case red_op of logical_and \<Rightarrow> b \<and> (\<forall>m\<in>set (m # ms). P m)
                           | logical_or \<Rightarrow> b \<or> (\<exists>m\<in>set (m # ms). P m))"
    by (cases red_op) auto
  finally show ?case .
qed

lemma fold_reduction_op:
  "fold (\<lambda>m acc. reduction_op red_op acc (of_bool (P m))) ms (known_identity red_op) =
     of_bool (red_quantifier red_op (set ms) P)"
  unfolding known_identity_of_bool fold_reduction_op_gen
  by (cases red_op) simp_all


lemma fold_store_const:
  "fold (\<lambda>i out. out(a i := c)) [0..<k] out0 x = (if x \<in> a ` {..<k} then c else out0 x)"
  by (induction k) (auto simp: lessThan_Suc)


lemma fold_store_inside:
  "inj_on a {..<k} \<Longrightarrow> i < k \<Longrightarrow> fold (\<lambda>i out. out(a i := w i)) [0..<k] out0 (a i) = w i"
proof (induction k)
  case 0
  then show ?case by simp
next
  case (Suc k)
  from Suc.prems have inj: "inj_on a {..<k}"
    by (auto simp: inj_on_def)
  show ?case
  proof (cases "i = k")
    case True
    then show ?thesis by simp
  next
    case False
    with Suc.prems have ik: "i < k" by simp
    with Suc.prems have "a i \<noteq> a k"
      by (auto simp: inj_on_def)
    with Suc.IH [OF inj ik] show ?thesis by simp
  qed
qed





lemma red_quantifier_cong:
  "S = T \<Longrightarrow> (\<And>i. i \<in> T \<Longrightarrow> P i = Q i) \<Longrightarrow>
   red_quantifier red_op S P = red_quantifier red_op T Q"
  by (cases red_op) auto

lemma of_bool_int32_nonzero: "((of_bool b :: int32) \<noteq> 0) = b"
  by simp

lemma SequentialBooleanReduction_eq:
  "SequentialBooleanReduction ty inp red_op (known_identity red_op)
       (TwoOffsets_CombinedIndexer fa fr) rix n =
     (\<lambda>i out. out(fr i := of_bool (red_quantifier red_op {..<n}
                   (\<lambda>m. convert_impl_bool ty (inp (fa i + rix m))))))"
  by (intro ext)
     (simp add: SequentialBooleanReduction_def TwoOffsets_CombinedIndexer_def Let_def
        fold_reduction_op atLeast0LessThan)

lemma sequential_path_inside:
  assumes "inj_on fr {..<iter_nelems}" and "i < iter_nelems"
  shows "fold (SequentialBooleanReduction ty inp red_op (known_identity red_op)
                 (TwoOffsets_CombinedIndexer fa fr) rix n) [0..<iter_nelems] res (fr i) =
         of_bool (red_quantifier red_op {..<n}
                   (\<lambda>m. convert_impl_bool ty (inp (fa i + rix m))))"
  unfolding SequentialBooleanReduction_eq
  by (rule fold_store_inside [OF assms])
















lemma contig_small_inside:
  assumes "i < iter_nelems"
  shows "boolean_reduction_contig_small ty red_op iter_nelems n arg res (int i) =
         of_bool (red_quantifier red_op {..<n}
                   (\<lambda>m. convert_impl_bool ty (arg (int i * int n + int m))))"
proof -
  have inj: "inj_on NoOpIndexer {..<iter_nelems}"
    by (simp add: inj_on_def NoOpIndexer_def)
  have "boolean_reduction_contig_small ty red_op iter_nelems n arg res (NoOpIndexer i) =
         of_bool (red_quantifier red_op {..<n}
                   (\<lambda>m. convert_impl_bool ty
                      (arg (Strided1DIndexer 0 (int iter_nelems) (int n) i + NoOpIndexer m))))"
    unfolding boolean_reduction_contig_small_def Let_def
    by (rule sequential_path_inside
          [where fa = "Strided1DIndexer 0 (int iter_nelems) (int n)" and rix = NoOpIndexer,
           OF inj assms])
  then show ?thesis
    by (simp add: NoOpIndexer_def Strided1DIndexer_def)
qed





















lemma red_quantifier_empty:
  "of_bool (red_quantifier red_op {} P) = known_identity red_op"
  by (cases red_op) simp_all

lemma strided_small_zero:
  "boolean_reduction_strided_small ty red_op iter_nelems 0 arg res fa fr rix x =
     (if x \<in> fr ` {..<iter_nelems} then known_identity red_op else res x)"
  unfolding boolean_reduction_strided_small_def Let_def SequentialBooleanReduction_eq
  by (simp add: red_quantifier_empty fold_store_const)

lemma contig_small_zero:
  "i < iter_nelems \<Longrightarrow>
   boolean_reduction_contig_small ty red_op iter_nelems 0 arg res (int i) = known_identity red_op"
  by (simp add: contig_small_inside red_quantifier_empty)

lemma contig_impl_small:
  "n < work_group_size sg_sizes \<Longrightarrow>
   boolean_reduction_contig_impl ty red_op group_op sg_sizes wg_order iter_nelems n
     arg_cp res_cp iter_arg_offset iter_res_offset red_arg_offset =
   (\<lambda>a. boolean_reduction_contig_small ty red_op iter_nelems n
          (\<lambda>k. arg_cp (k + iter_arg_offset + red_arg_offset))
          (\<lambda>k. res_cp (k + iter_res_offset)) (a - iter_res_offset))"
  by (simp add: boolean_reduction_contig_impl_def Let_def)

lemma strided_impl_small:
  "n < work_group_size sg_sizes \<Longrightarrow>
   boolean_reduction_strided_impl ty red_op group_op sg_sizes wg_order iter_nelems n
     arg_cp res_cp fa fr rix =
   boolean_reduction_strided_small ty red_op iter_nelems n arg_cp res_cp fa fr rix"
  by (simp add: boolean_reduction_strided_impl_def Let_def)

lemma SequentialBooleanReduction_zero:
  "SequentialBooleanReduction ty inp red_op identity ixr rix 0 id0 out =
     out(snd (ixr id0) := identity)"
  by (simp add: SequentialBooleanReduction_def Let_def split: prod.split)

text \<open>
  C3. For every input element type and every number of iteration indices, a boolean
  reduction over a reduction axis of size 0 writes the operator's identity to every
  output slot: "all" writes 1, "any" writes 0, contiguous and strided alike. Size 0 is
  below the work-group threshold (the device has a positive sub-group size), so the
  launchers take the sequential path; the fold of \<open>SequentialBooleanReduction\<close> runs
  zero times and the identity is stored unchanged.
\<close>

theorem C3_empty_reduction:
  assumes "0 < max_element sg_sizes"
  shows "(\<forall>id0<iter_nelems.
            AllContigFactory_get ty sg_sizes wg_order iter_nelems 0 arg_cp res_cp
              iter_arg_offset iter_res_offset red_arg_offset (int id0 + iter_res_offset) = 1
          \<and> AnyContigFactory_get ty sg_sizes wg_order iter_nelems 0 arg_cp res_cp
              iter_arg_offset iter_res_offset red_arg_offset (int id0 + iter_res_offset) = 0
          \<and> AllStridedFactory_get ty sg_sizes wg_order iter_nelems 0 arg_cp res_cp
              iter_arg_indexer iter_res_indexer reduction_indexer (iter_res_indexer id0) = 1
          \<and> AnyStridedFactory_get ty sg_sizes wg_order iter_nelems 0 arg_cp res_cp
              iter_arg_indexer iter_res_indexer reduction_indexer (iter_res_indexer id0) = 0)
     \<and> 0 < work_group_size sg_sizes
     \<and> boolean_reduction_contig_impl ty red_op group_op sg_sizes wg_order iter_nelems 0
           arg_cp res_cp iter_arg_offset iter_res_offset red_arg_offset =
         (\<lambda>a. boolean_reduction_contig_small ty red_op iter_nelems 0
                (\<lambda>k. arg_cp (k + iter_arg_offset + red_arg_offset))
                (\<lambda>k. res_cp (k + iter_res_offset)) (a - iter_res_offset))
     \<and> boolean_reduction_strided_impl ty red_op group_op' sg_sizes wg_order iter_nelems 0
           arg_cp res_cp iter_arg_indexer iter_res_indexer reduction_indexer =
         boolean_reduction_strided_small ty red_op iter_nelems 0 arg_cp res_cp
           iter_arg_indexer iter_res_indexer reduction_indexer
     \<and> SequentialBooleanReduction ty inp red_op identity ixr rix 0 id1 out =
         out(snd (ixr id1) := identity)"
proof -
  have wg: "0 < work_group_size sg_sizes"
    using assms by (simp add: work_group_size_def)
  have slots: "AllContigFactory_get ty sg_sizes wg_order iter_nelems 0 arg_cp res_cp
              iter_arg_offset iter_res_offset red_arg_offset (int id0 + iter_res_offset) = 1
          \<and> AnyContigFactory_get ty sg_sizes wg_order iter_nelems 0 arg_cp res_cp
              iter_arg_offset iter_res_offset red_arg_offset (int id0 + iter_res_offset) = 0
          \<and> AllStridedFactory_get ty sg_sizes wg_order iter_nelems 0 arg_cp res_cp
              iter_arg_indexer iter_res_indexer reduction_indexer (iter_res_indexer id0) = 1
          \<and> AnyStridedFactory_get ty sg_sizes wg_order iter_nelems 0 arg_cp res_cp
              iter_arg_indexer iter_res_indexer reduction_indexer (iter_res_indexer id0) = 0"
    if "id0 < iter_nelems" for id0
    using that
    by (simp add: AllContigFactory_get_def AnyContigFactory_get_def AllStridedFactory_get_def
        AnyStridedFactory_get_def contig_impl_small [OF wg] strided_impl_small [OF wg]
        contig_small_zero strided_small_zero)
  show ?thesis
    apply (intro conjI allI impI)
           apply (simp_all only: slots)
        apply (rule wg)
       apply (rule contig_impl_small [OF wg])
      apply (rule strided_impl_small [OF wg])
     apply (rule SequentialBooleanReduction_zero)
    done
qed

theorem C3_empty_reduction_witness:
  "0 < max_element [8, 16]
   \<and> AllContigFactory_get \<lparr>convert_impl_bool = (\<lambda>x::int. x \<noteq> 0), from_int32 = sint\<rparr>
        [8, 16] [] 3 0 (\<lambda>k. 0) (\<lambda>k. 7) 0 5 0 7 = 1
   \<and> AnyContigFactory_get \<lparr>convert_impl_bool = (\<lambda>x::int. x \<noteq> 0), from_int32 = sint\<rparr>
        [8, 16] [] 3 0 (\<lambda>k. 0) (\<lambda>k. 7) 0 5 0 7 = 0
   \<and> AllStridedFactory_get \<lparr>convert_impl_bool = (\<lambda>x::int. x \<noteq> 0), from_int32 = sint\<rparr>
        [8, 16] [] 3 0 (\<lambda>k. 0) (\<lambda>k. 7) (\<lambda>i. 4 * int i) (\<lambda>i. 10 - int i) (\<lambda>m. int m) 8 = 1
   \<and> AnyStridedFactory_get \<lparr>convert_impl_bool = (\<lambda>x::int. x \<noteq> 0), from_int32 = sint\<rparr>
        [8, 16] [] 3 0 (\<lambda>k. 0) (\<lambda>k. 7) (\<lambda>i. 4 * int i) (\<lambda>i. 10 - int i) (\<lambda>m. int m) 8 = 0"
proof -
  let ?ty = "\<lparr>convert_impl_bool = (\<lambda>x::int. x \<noteq> 0), from_int32 = sint\<rparr>"
  have h: "0 < max_element [8, 16]"
    by (simp add: max_element_def)
  have i: "(2::nat) < 3" by simp
  from C3_empty_reduction [OF h, THEN conjunct1, rule_format, OF i,
      of ?ty "[]" "\<lambda>k. 0" "\<lambda>k. 7" 0 5 0 "\<lambda>i. 4 * int i" "\<lambda>i. 10 - int i" "\<lambda>m. int m"]
  show ?thesis using h by simp
qed












end
